theory Spec2Isabelle
  imports Main "HOL-Library.Sublist" "HOL-Library.Word"
begin

section \<open>Data model\<close>

text \<open>
  The gateway of \<^verbatim>\<open>internal/server/server.go\<close>: a public login route, an authentication
  middleware and a handler that runs one stored procedure inside one transaction under
  the caller's database role. The Go structs are records, the HTTP and database libraries
  are an explicit environment, and every early \<^verbatim>\<open>return\<close> of a handler is a branch.
\<close>

datatype json = JNull | JBool bool | JNum int | JStr string
  | JArr "json list" | JObj "(string \<times> json) list"

text \<open>\<^verbatim>\<open>config.Config\<close>, the fields the server and the pool manager read.\<close>

record Config =
  DBHost :: string
  DBPort :: int
  DBUser :: string
  HTTPPort :: string
  JWTSecret :: string
  JWTExpiryHours :: int

text \<open>
  \<^verbatim>\<open>JSONRPCRequest\<close>, \<^verbatim>\<open>JSONRPCResponse\<close>, \<^verbatim>\<open>JSONRPCError\<close> and \<^verbatim>\<open>LoginRequest\<close>. A Go
  \<^verbatim>\<open>interface{}\<close> holding a decoded JSON value is a \<open>json\<close>, with \<open>JNull\<close> for \<^verbatim>\<open>nil\<close>:
  an absent \<^verbatim>\<open>id\<close> and an explicit \<^verbatim>\<open>null\<close> both decode to \<^verbatim>\<open>nil\<close> and both encode as
  \<^verbatim>\<open>null\<close>. \<open>Result\<close> is \<open>None\<close> for a nil \<^verbatim>\<open>json.RawMessage\<close> and \<open>Error\<close> is \<open>None\<close>
  for a nil pointer.
\<close>

record JSONRPCRequest =
  req_JSONRPC :: string
  req_Method :: string
  req_Params :: json
  req_ID :: json

record JSONRPCError =
  Code :: int
  Message :: string

record JSONRPCResponse =
  JSONRPC :: string
  Result :: "string option"
  Error :: "JSONRPCError option"
  ID :: json

record LoginRequest =
  Login :: string
  Password :: string

text \<open>What \<^verbatim>\<open>c.JSON(status, body)\<close> writes.\<close>

record http_response =
  status :: nat
  envelope :: JSONRPCResponse

text \<open>
  One request as a handler sees it: the two path parameters, the \<^verbatim>\<open>Authorization\<close>
  header (empty when absent, as \<^verbatim>\<open>c.GetHeader\<close> returns it) and the body as
  \<^verbatim>\<open>ShouldBindJSON\<close> decodes it into a \<^verbatim>\<open>JSONRPCRequest\<close> (\<open>None\<close> when decoding fails).
\<close>

record request =
  param_database :: string
  param_function :: string
  authorization :: string
  body :: "JSONRPCRequest option"

section \<open>The database seen from one request\<close>

text \<open>
  Every call the handlers make on \<^verbatim>\<open>database/sql\<close> is recorded in order, and the answers
  of the database are the fields of an environment.
\<close>

datatype db_call =
    GetConnection string
  | BeginTx
  | ExecContext string
  | QueryRowContext string string
  | Commit
  | Rollback

datatype commit_result = CommitOK | CommitFailed | CommitCancelled

record env =
  GetConnection_ok :: "string \<Rightarrow> bool"
  BeginTx_ok :: "string \<Rightarrow> bool"
  ExecContext_ok :: "string \<Rightarrow> string \<Rightarrow> bool"
  QueryRow_json :: "string \<Rightarrow> string \<Rightarrow> string \<Rightarrow> string + string"
  Commit_result :: "string \<Rightarrow> commit_result"
  QueryRow_role :: "string \<Rightarrow> string \<Rightarrow> string \<Rightarrow> string option option"
  jwt_Parse :: "string \<Rightarrow> string \<Rightarrow> (string \<times> json) list option"
  json_Marshal :: "json \<Rightarrow> string option"
  sql_Open_ok :: "string \<Rightarrow> bool"
  PingContext_ok :: "string \<Rightarrow> bool"
  time_Now :: int
  jwt_SignedString :: "string \<Rightarrow> (string \<times> json) list \<Rightarrow> string option"

text \<open>
  \<open>GetConnection_ok d\<close>: \<^verbatim>\<open>database.GetConnection(cfg, d)\<close> returns a pool.
  \<open>BeginTx_ok d\<close>: \<^verbatim>\<open>db.BeginTx\<close> on that pool succeeds.
  \<open>ExecContext_ok d sql\<close>: the statement runs without error.
  \<open>QueryRow_json d sql arg\<close>: \<^verbatim>\<open>QueryRowContext(sql, arg).Scan(&resultJSON)\<close>, \<open>Inl\<close> the
  text of the error, \<open>Inr\<close> the bytes scanned.
  \<open>QueryRow_role d sql arg\<close>: the same into a \<^verbatim>\<open>sql.NullString\<close>; \<open>None\<close> an error,
  \<open>Some None\<close> SQL NULL, \<open>Some (Some r)\<close> the text \<open>r\<close>.
  \<open>jwt_Parse key tok\<close>: the claims of \<open>tok\<close> when \<^verbatim>\<open>jwt.Parse\<close> returns no error and a
  valid token (HMAC signature under \<open>key\<close>, not expired), \<open>None\<close> otherwise.
  \<open>json_Marshal\<close>: \<^verbatim>\<open>json.Marshal\<close>, \<open>None\<close> an error.
  \<open>sql_Open_ok s\<close>, \<open>PingContext_ok s\<close>: \<^verbatim>\<open>sql.Open("postgres", s)\<close> and the ping of the
  handle it returns succeed, \<open>s\<close> the connection string.
  \<open>time_Now\<close>: \<^verbatim>\<open>time.Now()\<close> in nanoseconds since the Unix epoch.
  \<open>jwt_SignedString key claims\<close>: the HS256 token of \<open>claims\<close> under \<open>key\<close>, \<open>None\<close> an error.
\<close>

text \<open>
  A \<^verbatim>\<open>sql.Tx\<close>, by the contract of \<^verbatim>\<open>database/sql\<close>. The first \<^verbatim>\<open>Commit\<close> or \<^verbatim>\<open>Rollback\<close>
  that reaches the driver finishes the transaction, and every later call returns
  \<^verbatim>\<open>ErrTxDone\<close> and does nothing. A commit that the database refuses (\<open>CommitFailed\<close>)
  finishes the transaction with its changes undone; a commit refused because the
  request's context is already cancelled (\<open>CommitCancelled\<close>) never reaches the driver and
  leaves the transaction open. \<open>effects\<close> lists what happened to the transaction's
  changes in the backing store: \<open>Committed\<close> when they were made durable, \<open>RolledBack\<close>
  when they were undone, by a \<^verbatim>\<open>Rollback\<close> that reached the open transaction or by a
  refused commit.
\<close>

datatype tx_effect = Committed | RolledBack

record tx =
  tx_done :: bool
  effects :: "tx_effect list"

definition tx_begin :: tx where
  "tx_begin = \<lparr>tx_done = False, effects = []\<rparr>"

definition tx_Commit :: "commit_result \<Rightarrow> tx \<Rightarrow> bool \<times> tx" where
  "tx_Commit cr t =
     (if tx_done t then (False, t)
      else case cr of
        CommitOK \<Rightarrow> (True, t\<lparr>tx_done := True, effects := effects t @ [Committed]\<rparr>)
      | CommitFailed \<Rightarrow> (False, t\<lparr>tx_done := True, effects := effects t @ [RolledBack]\<rparr>)
      | CommitCancelled \<Rightarrow> (False, t))"

definition tx_Rollback :: "tx \<Rightarrow> tx" where
  "tx_Rollback t =
     (if tx_done t then t
      else t\<lparr>tx_done := True, effects := effects t @ [RolledBack]\<rparr>)"

section \<open>Strings\<close>

text \<open>\<^verbatim>\<open>strings.Contains\<close>.\<close>

fun Contains :: "string \<Rightarrow> string \<Rightarrow> bool" where
  "Contains [] sub = (sub = [])"
| "Contains (c # s) sub = (prefix sub (c # s) \<or> Contains s sub)"

text \<open>
  \<^verbatim>\<open>strings.ReplaceAll\<close>: the non-overlapping occurrences of \<open>old\<close> from the left. For
  an empty \<open>old\<close> Go inserts \<open>new\<close> before every character and at the end.
\<close>

function ReplaceAll :: "string \<Rightarrow> string \<Rightarrow> string \<Rightarrow> string" where
  "ReplaceAll [] old new = (if old = [] then new else [])"
| "ReplaceAll (c # s) old new =
     (if old = [] then new @ c # ReplaceAll s old new
      else if prefix old (c # s) then new @ ReplaceAll (drop (length old) (c # s)) old new
      else c # ReplaceAll s old new)"
  by pat_completeness auto
termination
  by (relation "measure (\<lambda>(s, old, new). length s)") auto

text \<open>
  \<^verbatim>\<open>strings.ToLower\<close> on the ASCII letters. Beyond ASCII Go lowers code points; the only
  ones it maps to an ASCII letter are U+0130 (to \<open>i\<close>) and U+212A (to \<open>k\<close>), and neither
  letter occurs in \<open>bearer\<close>, so comparing the result with \<open>''bearer''\<close> gives what the
  source gets.
\<close>

definition ToLower_char :: "char \<Rightarrow> char" where
  "ToLower_char c =
     (case map_of (zip ''ABCDEFGHIJKLMNOPQRSTUVWXYZ'' ''abcdefghijklmnopqrstuvwxyz'') c of
        Some l \<Rightarrow> l
      | None \<Rightarrow> c)"

definition ToLower :: "string \<Rightarrow> string" where
  "ToLower s = map ToLower_char s"

text \<open>\<^verbatim>\<open>strings.SplitN(s, sep, 2)\<close> for a one-character separator: cut at its first occurrence.\<close>

definition SplitN_2 :: "string \<Rightarrow> char \<Rightarrow> string list" where
  "SplitN_2 s sep =
     (if sep \<in> set s
      then [takeWhile (\<lambda>c. c \<noteq> sep) s, tl (dropWhile (\<lambda>c. c \<noteq> sep) s)]
      else [s])"

text \<open>\<^verbatim>\<open>%d\<close> of \<^verbatim>\<open>fmt.Sprintf\<close>: decimal digits, a minus sign for a negative number.\<close>

fun digits :: "nat \<Rightarrow> string" where
  "digits n =
     (if n < 10 then [''0123456789'' ! n]
      else digits (n div 10) @ [''0123456789'' ! (n mod 10)])"

declare digits.simps [simp del]

definition Itoa :: "int \<Rightarrow> string" where
  "Itoa i = (if i < 0 then CHR ''-'' # digits (nat (- i)) else digits (nat i))"

section \<open>The dispatcher\<close>

text \<open>What one run of a handler leaves behind.\<close>

record outcome =
  response :: http_response
  calls :: "db_call list"
  final_tx :: "tx option"

definition error_envelope :: "int \<Rightarrow> string \<Rightarrow> json \<Rightarrow> JSONRPCResponse" where
  "error_envelope code msg ident =
     \<lparr>JSONRPC = [], Result = None, Error = Some \<lparr>Code = code, Message = msg\<rparr>, ID = ident\<rparr>"

definition reply :: "nat \<Rightarrow> JSONRPCResponse \<Rightarrow> db_call list \<Rightarrow> tx option \<Rightarrow> outcome" where
  "reply st e cs t = \<lparr>response = \<lparr>status = st, envelope = e\<rparr>, calls = cs, final_tx = t\<rparr>"

definition quotedRole :: "string \<Rightarrow> string" where
  "quotedRole dbRole = [CHR 0x22] @ ReplaceAll dbRole [CHR 0x22] [CHR 0x22, CHR 0x22] @ [CHR 0x22]"

definition set_role_stmt :: "string \<Rightarrow> string" where
  "set_role_stmt dbRole = ''SET LOCAL ROLE '' @ quotedRole dbRole"

definition call_query :: "string \<Rightarrow> string" where
  "call_query functionName =
     (if functionName = ''capabilities'' then ''SELECT pgarachne.capabilities($1::jsonb)::json''
      else ''SELECT '' @ functionName @ ''($1::jsonb)::json'')"

text \<open>
  \<^verbatim>\<open>handleFunctionCall\<close>. \<open>dbRole\<close> is \<^verbatim>\<open>c.GetString("db_role")\<close>, empty when the key was
  never set. \<^verbatim>\<open>defer tx.Rollback()\<close> runs at every return below \<^verbatim>\<open>BeginTx\<close>, so each of
  those branches ends with a \<open>Rollback\<close> call on the transaction as it then is.
\<close>

definition handleFunctionCall :: "env \<Rightarrow> string \<Rightarrow> request \<Rightarrow> outcome" where
  "handleFunctionCall e dbRole r =
    (let databaseName = param_database r; functionName = param_function r in
     if functionName = ''login'' then
       reply 403 (error_envelope 0 ''Login must be called via the public endpoint'' JNull) [] None
     else if \<not> GetConnection_ok e databaseName then
       reply 503 (error_envelope 0 ''Database connection failed'' JNull)
         [GetConnection databaseName] None
     else (case body r of
       None \<Rightarrow>
         reply 400 (error_envelope 0 ''Invalid JSON request'' JNull)
           [GetConnection databaseName] None
     | Some req \<Rightarrow>
         if dbRole = [] then
           reply 500 (error_envelope (- 32000)
               ''Internal Server Error: User role not identified'' (req_ID req))
             [GetConnection databaseName] None
         else (case json_Marshal e (req_Params req) of
           None \<Rightarrow>
             reply 500 (error_envelope 0 ''Failed to marshal params'' (req_ID req))
               [GetConnection databaseName] None
         | Some paramsJSON \<Rightarrow>
             if \<not> BeginTx_ok e databaseName then
               reply 503 (error_envelope 0 ''Database unavailable'' (req_ID req))
                 [GetConnection databaseName, BeginTx] None
             else if \<not> ExecContext_ok e databaseName (set_role_stmt dbRole) then
               reply 403 (error_envelope (- 32001)
                   ''Permission denied for the specified role'' (req_ID req))
                 [GetConnection databaseName, BeginTx, ExecContext (set_role_stmt dbRole),
                  Rollback]
                 (Some (tx_Rollback tx_begin))
             else
               (let query = call_query functionName;
                    before = [GetConnection databaseName, BeginTx,
                      ExecContext (set_role_stmt dbRole), QueryRowContext query paramsJSON]
                in (case QueryRow_json e databaseName query paramsJSON of
                  Inl err \<Rightarrow>
                    reply (if Contains err ''does not exist'' then 404 else 500)
                      (error_envelope 0
                         (if Contains err ''does not exist'' then ''Function does not exist''
                          else ''Function call failed: '' @ err) (req_ID req))
                      (before @ [Rollback]) (Some (tx_Rollback tx_begin))
                | Inr resultJSON \<Rightarrow>
                    (case tx_Commit (Commit_result e databaseName) tx_begin of
                       (False, t) \<Rightarrow>
                         reply 500 (error_envelope 0 ''Transaction commit failed'' (req_ID req))
                           (before @ [Commit, Rollback]) (Some (tx_Rollback t))
                     | (True, t) \<Rightarrow>
                         reply 200
                           \<lparr>JSONRPC = ''2.0'', Result = Some resultJSON, Error = None,
                            ID = req_ID req\<rparr>
                           (before @ [Commit, Rollback]) (Some (tx_Rollback t))))))))"

section \<open>The authenticator\<close>

text \<open>
  \<^verbatim>\<open>authMiddleware\<close> either answers itself and aborts the chain, or stores the role under
  \<^verbatim>\<open>"db_role"\<close> and lets the next handler run.
\<close>

datatype auth_result = Aborted http_response | Next string

definition unauthorized :: "string \<Rightarrow> auth_result" where
  "unauthorized msg = Aborted \<lparr>status = 401, envelope = error_envelope 0 msg JNull\<rparr>"

text \<open>
  Step 1 of the middleware, the signed session token. \<open>None\<close> is the fall through to
  step 2. The assertion \<^verbatim>\<open>token.Claims.(jwt.MapClaims)\<close> holds for every token that
  \<^verbatim>\<open>jwt.Parse\<close> returns; \<^verbatim>\<open>claims[k].(string)\<close> holds when the key is there with a string.
\<close>

definition try_jwt :: "Config \<Rightarrow> env \<Rightarrow> string \<Rightarrow> string \<Rightarrow> string \<Rightarrow> auth_result option" where
  "try_jwt cfg e requestedDb authType tokenString =
     (if ToLower authType = ''bearer'' then
        (case jwt_Parse e (JWTSecret cfg) tokenString of
           None \<Rightarrow> None
         | Some claims \<Rightarrow>
             (case (map_of claims ''db_role'', map_of claims ''db_name'') of
                (Some (JStr dbRole), Some (JStr dbName)) \<Rightarrow>
                  if dbRole \<noteq> [] then
                    (if dbName \<noteq> requestedDb
                     then Some (unauthorized ''Invalid token for this database'')
                     else Some (Next dbRole))
                  else None
              | _ \<Rightarrow> None))
      else None)"

text \<open>Step 2, the long-lived token checked by \<^verbatim>\<open>pgarachne.verify_api_token\<close>.\<close>

definition try_api_token :: "env \<Rightarrow> string \<Rightarrow> string \<Rightarrow> auth_result \<times> db_call list" where
  "try_api_token e databaseName tokenString =
     (if \<not> GetConnection_ok e databaseName then
        (Aborted \<lparr>status = 503,
           envelope = error_envelope 0 ''Database connection failed'' JNull\<rparr>,
         [GetConnection databaseName])
      else
        (let query = ''SELECT pgarachne.verify_api_token($1)'';
             cs = [GetConnection databaseName, QueryRowContext query tokenString]
         in (case QueryRow_role e databaseName query tokenString of
               Some (Some role) \<Rightarrow> (Next role, cs)
             | _ \<Rightarrow> (unauthorized ''Invalid or expired token'', cs))))"

definition authMiddleware :: "Config \<Rightarrow> env \<Rightarrow> request \<Rightarrow> auth_result \<times> db_call list" where
  "authMiddleware cfg e r =
     (let authHeader = authorization r in
      if authHeader = [] then (unauthorized ''Authorization header is missing'', [])
      else (case SplitN_2 authHeader (CHR '' '') of
              [authType, tokenString] \<Rightarrow>
                (case try_jwt cfg e (param_database r) authType tokenString of
                   Some res \<Rightarrow> (res, [])
                 | None \<Rightarrow> try_api_token e (param_database r) tokenString)
            | _ \<Rightarrow> (unauthorized ''Authorization header is malformed'', [])))"

text \<open>
  The handler chain of the group \<^verbatim>\<open>/api/:database\<close>, as gin runs it on a request that
  the router hands to the group: the middleware, then \<^verbatim>\<open>handleFunctionCall\<close> unless the
  middleware aborted. Which requests the router hands to the group is \<open>route_POST_api\<close>
  below.
\<close>

definition protected_chain :: "Config \<Rightarrow> env \<Rightarrow> request \<Rightarrow> outcome" where
  "protected_chain cfg e r =
     (case authMiddleware cfg e r of
        (Aborted resp, cs) \<Rightarrow> \<lparr>response = resp, calls = cs, final_tx = None\<rparr>
      | (Next dbRole, cs) \<Rightarrow>
          (let out = handleFunctionCall e dbRole r in out\<lparr>calls := cs @ calls out\<rparr>))"

section \<open>Direct login\<close>

text \<open>
  \<^verbatim>\<open>handleLogin\<close> answers with a \<^verbatim>\<open>gin.H\<close>, one key and a string. The body is the
  \<^verbatim>\<open>LoginRequest\<close> the JSON decodes to (\<open>None\<close> when it does not decode); the tag
  \<^verbatim>\<open>binding:"required"\<close> on both fields refuses an empty one.
\<close>

record login_request =
  login_database :: string
  login_body :: "LoginRequest option"

record login_response =
  login_status :: nat
  login_H :: "string \<times> string"

definition ShouldBindJSON_Login :: "LoginRequest option \<Rightarrow> LoginRequest option" where
  "ShouldBindJSON_Login b =
     (case b of
        None \<Rightarrow> None
      | Some l \<Rightarrow> if Login l = [] \<or> Password l = [] then None else Some l)"

text \<open>
  \<^verbatim>\<open>time.Duration\<close> and the Go \<^verbatim>\<open>int\<close> are 64-bit and signed; their product wraps.
\<close>

definition int64 :: "int \<Rightarrow> int" where
  "int64 x = sint (word_of_int x :: 64 word)"

definition time_Hour :: int where
  "time_Hour = 3600000000000"

definition expiration_Unix :: "Config \<Rightarrow> env \<Rightarrow> int" where
  "expiration_Unix cfg e =
     (time_Now e + int64 (int64 (JWTExpiryHours cfg) * time_Hour)) div 1000000000"

definition connStr :: "Config \<Rightarrow> LoginRequest \<Rightarrow> string \<Rightarrow> string" where
  "connStr cfg loginReq db =
     ''host='' @ DBHost cfg @ '' port='' @ Itoa (DBPort cfg) @ '' user='' @ Login loginReq
       @ '' password='' @ Password loginReq @ '' dbname='' @ db @ '' sslmode=disable''"

definition session_claims :: "Config \<Rightarrow> env \<Rightarrow> string \<Rightarrow> string \<Rightarrow> (string \<times> json) list" where
  "session_claims cfg e dbRole db =
     [(''db_role'', JStr dbRole), (''db_name'', JStr db), (''exp'', JNum (expiration_Unix cfg e))]"

definition handleLogin :: "Config \<Rightarrow> env \<Rightarrow> login_request \<Rightarrow> login_response" where
  "handleLogin cfg e r =
     (case ShouldBindJSON_Login (login_body r) of
        None \<Rightarrow> \<lparr>login_status = 400, login_H = (''error'', ''Invalid request body'')\<rparr>
      | Some loginReq \<Rightarrow>
          if \<not> sql_Open_ok e (connStr cfg loginReq (login_database r)) then
            \<lparr>login_status = 500, login_H = (''error'', ''Internal authentication error'')\<rparr>
          else if \<not> PingContext_ok e (connStr cfg loginReq (login_database r)) then
            \<lparr>login_status = 401, login_H = (''error'', ''Invalid login or password'')\<rparr>
          else
            (let dbRole = Login loginReq in
             (case jwt_SignedString e (JWTSecret cfg)
                     (session_claims cfg e dbRole (login_database r)) of
                None \<Rightarrow>
                  \<lparr>login_status = 500, login_H = (''error'', ''Failed to create session token'')\<rparr>
              | Some tokenString \<Rightarrow>
                  \<lparr>login_status = 200, login_H = (''token'', tokenString)\<rparr>)))"

text \<open>
  The two \<^verbatim>\<open>POST\<close> routes that \<^verbatim>\<open>Run\<close> registers under \<^verbatim>\<open>/api\<close>:
  \<^verbatim>\<open>/api/:database/login\<close> for \<^verbatim>\<open>handleLogin\<close>, and \<^verbatim>\<open>/api/:database/:function\<close> for the
  group with the middleware. gin matches the static segment \<^verbatim>\<open>login\<close> before the
  parameter \<^verbatim>\<open>:function\<close>, so a request whose second segment is \<^verbatim>\<open>login\<close> is always
  served by \<^verbatim>\<open>handleLogin\<close>, without the middleware, and every other one by the group.
  \<open>as_login\<close> is the body of the request as \<^verbatim>\<open>ShouldBindJSON\<close> decodes it into a
  \<^verbatim>\<open>LoginRequest\<close>, which is how \<^verbatim>\<open>handleLogin\<close> reads it.
\<close>

datatype served = Login_served login_response | Call_served outcome

definition route_POST_api :: "Config \<Rightarrow> env \<Rightarrow> request \<Rightarrow> LoginRequest option \<Rightarrow> served" where
  "route_POST_api cfg e r as_login =
     (if param_function r = ''login''
      then Login_served
        (handleLogin cfg e \<lparr>login_database = param_database r, login_body = as_login\<rparr>)
      else Call_served (protected_chain cfg e r))"

section \<open>A concrete deployment\<close>

text \<open>
  The scenario of the specification: one database \<open>shop\<close>, one role \<open>demo\<close> with the
  procedure \<open>api.server_info\<close>, tokens that last eight hours.
\<close>

definition demo_cfg :: Config where
  "demo_cfg = \<lparr>DBHost = ''localhost'', DBPort = 5432, DBUser = ''gateway'',
     HTTPPort = ''8080'', JWTSecret = ''secret'', JWTExpiryHours = 8\<rparr>"

definition demo_env :: env where
  "demo_env = \<lparr>
     GetConnection_ok = (\<lambda>d. d = ''shop''),
     BeginTx_ok = (\<lambda>d. True),
     ExecContext_ok = (\<lambda>d s. s = set_role_stmt ''demo''),
     QueryRow_json = (\<lambda>d q a.
        if q = ''SELECT api.server_info($1::jsonb)::json'' then Inr ''{}''
        else if q = ''SELECT pg_sleep(10), to_json($1::jsonb)::json''
        then Inl ''sql: expected 2 destination arguments in Scan, not 1''
        else Inl ''pq: function does not exist''),
     Commit_result = (\<lambda>d. CommitOK),
     QueryRow_role = (\<lambda>d q a. if a = ''api-token-of-demo'' then Some (Some ''demo'') else Some None),
     jwt_Parse = (\<lambda>k t.
        if k = ''secret'' \<and> t = ''jwt-demo-shop''
        then Some [(''db_role'', JStr ''demo''), (''db_name'', JStr ''shop''),
                   (''exp'', JNum 1700028800)]
        else None),
     json_Marshal = (\<lambda>j. Some ''{}''),
     sql_Open_ok = (\<lambda>s. True),
     PingContext_ok = (\<lambda>s.
        s = ''host=localhost port=5432 user=demo password=pw dbname=shop sslmode=disable''),
     time_Now = 1700000000123456789,
     jwt_SignedString = (\<lambda>k c. Some ''jwt-demo-shop'')\<rparr>"

definition demo_call :: JSONRPCRequest where
  "demo_call = \<lparr>req_JSONRPC = ''2.0'', req_Method = ''api.server_info'',
     req_Params = JObj [], req_ID = JNum 7\<rparr>"

definition demo_req :: request where
  "demo_req = \<lparr>param_database = ''shop'', param_function = ''api.server_info'',
     authorization = ''Bearer jwt-demo-shop'', body = Some demo_call\<rparr>"

text \<open>The same database when the role may not be assumed, and when the commit is refused.\<close>

definition denying_env :: env where
  "denying_env = demo_env\<lparr>ExecContext_ok := (\<lambda>d s. False)\<rparr>"

definition failing_commit_env :: env where
  "failing_commit_env = demo_env\<lparr>Commit_result := (\<lambda>d. CommitFailed)\<rparr>"

text \<open>More requests and databases of the same deployment.\<close>

definition injection_req :: request where
  "injection_req = demo_req\<lparr>param_function := ''pg_sleep(10), to_json''\<rparr>"

definition other_db_req :: request where
  "other_db_req = demo_req\<lparr>param_database := ''warehouse''\<rparr>"

definition no_header_req :: request where
  "no_header_req = demo_req\<lparr>authorization := []\<rparr>"

definition bare_header_req :: request where
  "bare_header_req = demo_req\<lparr>authorization := ''Bearer''\<rparr>"

definition forged_req :: request where
  "forged_req = demo_req\<lparr>authorization := ''Bearer forged''\<rparr>"

text \<open>
  \<^verbatim>\<open>POST /api/shop/login\<close> with the valid bearer token and the JSON-RPC body of
  \<open>demo_call\<close>. That body has no \<^verbatim>\<open>login\<close> and no \<^verbatim>\<open>password\<close> key, so decoded into a
  \<^verbatim>\<open>LoginRequest\<close> it leaves both fields empty.
\<close>

definition signed_login_req :: request where
  "signed_login_req = demo_req\<lparr>param_function := ''login''\<rparr>"

definition demo_call_as_login :: "LoginRequest option" where
  "demo_call_as_login = Some \<lparr>Login = [], Password = []\<rparr>"

definition demo_login :: login_request where
  "demo_login = \<lparr>login_database = ''shop'',
     login_body = Some \<lparr>Login = ''demo'', Password = ''pw''\<rparr>\<rparr>"

definition wrong_password_login :: login_request where
  "wrong_password_login = \<lparr>login_database = ''shop'',
     login_body = Some \<lparr>Login = ''demo'', Password = ''guess''\<rparr>\<rparr>"

section \<open>Reference grammars\<close>

abbreviation dquote :: char where
  "dquote \<equiv> CHR 0x22"

text \<open>Every double quote written twice, the other characters kept.\<close>

definition double_quotes :: "string \<Rightarrow> string" where
  "double_quotes s = concat (map (\<lambda>c. if c = dquote then [dquote, dquote] else [c]) s)"

text \<open>
  How PostgreSQL reads a quoted identifier: it opens with a double quote and runs to the
  first double quote that is not followed by another one; two in a row stand for one
  in the name; an empty name is refused. \<open>scan_quoted_ident\<close> returns the name and the
  input left after the closing quote, \<open>None\<close> when the input does not start with a
  complete quoted identifier.
\<close>

fun scan_body :: "string \<Rightarrow> (string \<times> string) option" where
  "scan_body [] = None"
| "scan_body [c] = (if c = dquote then Some ([], []) else None)"
| "scan_body (c # d # s) =
     (if c = dquote then
        (if d = dquote then map_option (\<lambda>(n, rest). (dquote # n, rest)) (scan_body s)
         else Some ([], d # s))
      else map_option (\<lambda>(n, rest). (c # n, rest)) (scan_body (d # s)))"

definition scan_quoted_ident :: "string \<Rightarrow> (string \<times> string) option" where
  "scan_quoted_ident s =
     (case s of
        [] \<Rightarrow> None
      | c # s' \<Rightarrow>
          if c = dquote then
            (case scan_body s' of
               None \<Rightarrow> None
             | Some (n, rest) \<Rightarrow> if n = [] then None else Some (n, rest))
          else None)"

definition hostile_role :: string where
  "hostile_role = ''demo'' @ [dquote] @ ''; DROP ROLE admin; --''"

text \<open>
  The grammar the specification requires of a procedure name before it is put into the
  SQL text: legal identifier characters, with at most one schema-dot-name qualification.
  The source has no function for it; it is written here from the specification's words.
\<close>

definition is_ident_start :: "char \<Rightarrow> bool" where
  "is_ident_start c = (c \<in> set ''abcdefghijklmnopqrstuvwxyzABCDEFGHIJKLMNOPQRSTUVWXYZ_'')"

definition is_ident_char :: "char \<Rightarrow> bool" where
  "is_ident_char c = (is_ident_start c \<or> c \<in> set ''0123456789'')"

definition is_identifier :: "string \<Rightarrow> bool" where
  "is_identifier s =
     (case s of [] \<Rightarrow> False | c # cs \<Rightarrow> is_ident_start c \<and> list_all is_ident_char cs)"

definition spec_valid_procedure_name :: "string \<Rightarrow> bool" where
  "spec_valid_procedure_name s =
     (case SplitN_2 s (CHR ''.'') of
        [name] \<Rightarrow> is_identifier name
      | [schema, name] \<Rightarrow> is_identifier schema \<and> is_identifier name
      | _ \<Rightarrow> False)"

section \<open>The transaction of a dispatch\<close>

lemmas handler_defs =
  handleFunctionCall_def reply_def tx_Commit_def tx_begin_def tx_Rollback_def Let_def

lemmas demo_defs = demo_req_def demo_env_def demo_cfg_def demo_call_def

text \<open>
  Claim C3. Every dispatch that begins a transaction (the request reaches \<^verbatim>\<open>BeginTx\<close> and
  \<^verbatim>\<open>BeginTx\<close> succeeds) ends it with exactly one commit, when the privilege switch, the
  procedure call and the commit succeed, or with exactly one effective rollback on
  every failure, never both and never neither. The handler calls \<^verbatim>\<open>Rollback\<close> once on
  every path (the deferred call) and \<^verbatim>\<open>Commit\<close> at most once;
  what reaches the backing store is one \<open>Committed\<close> together with status 200, or one
  \<open>RolledBack\<close> together with an error status.
\<close>

theorem dispatch_commit_xor_rollback:
  assumes "param_function r \<noteq> ''login''"
    and "GetConnection_ok e (param_database r)"
    and "body r = Some req"
    and "dbRole \<noteq> []"
    and "json_Marshal e (req_Params req) = Some paramsJSON"
    and "BeginTx_ok e (param_database r)"
  shows "\<exists>t. final_tx (handleFunctionCall e dbRole r) = Some t
     \<and> tx_done t
     \<and> ((status (response (handleFunctionCall e dbRole r)) = 200 \<and> effects t = [Committed])
        \<or> (status (response (handleFunctionCall e dbRole r)) \<noteq> 200 \<and> effects t = [RolledBack]))
     \<and> (effects t = [Committed] \<longleftrightarrow>
          ExecContext_ok e (param_database r) (set_role_stmt dbRole)
          \<and> (\<exists>res. QueryRow_json e (param_database r) (call_query (param_function r))
                      paramsJSON = Inr res)
          \<and> Commit_result e (param_database r) = CommitOK)
     \<and> BeginTx \<in> set (calls (handleFunctionCall e dbRole r))
     \<and> count_list (calls (handleFunctionCall e dbRole r)) Rollback = 1
     \<and> count_list (calls (handleFunctionCall e dbRole r)) Commit \<le> 1"
proof (cases "ExecContext_ok e (param_database r) (set_role_stmt dbRole)")
  case False
  with assms show ?thesis by (simp add: handler_defs)
next
  case ex: True
  show ?thesis
  proof (cases "QueryRow_json e (param_database r) (call_query (param_function r)) paramsJSON")
    case (Inl err)
    with assms ex show ?thesis by (simp add: handler_defs)
  next
    case (Inr res)
    with assms ex show ?thesis
      by (cases "Commit_result e (param_database r)") (simp_all add: handler_defs)
  qed
qed

theorem dispatch_commit_xor_rollback_witness:
  "param_function demo_req \<noteq> ''login''
   \<and> GetConnection_ok failing_commit_env (param_database demo_req)
   \<and> body demo_req = Some demo_call
   \<and> ''demo'' \<noteq> []
   \<and> json_Marshal failing_commit_env (req_Params demo_call) = Some ''{}''
   \<and> BeginTx_ok failing_commit_env (param_database demo_req)
   \<and> final_tx (handleFunctionCall failing_commit_env ''demo'' demo_req)
       = Some \<lparr>tx_done = True, effects = [RolledBack]\<rparr>
   \<and> status (response (handleFunctionCall failing_commit_env ''demo'' demo_req)) = 500
   \<and> count_list (calls (handleFunctionCall failing_commit_env ''demo'' demo_req)) Rollback = 1
   \<and> count_list (calls (handleFunctionCall failing_commit_env ''demo'' demo_req)) Commit \<le> 1"
proof -
  have t: "final_tx (handleFunctionCall failing_commit_env ''demo'' demo_req)
     = Some \<lparr>tx_done = True, effects = [RolledBack]\<rparr>"
    by (simp add: failing_commit_env_def demo_defs handler_defs call_query_def)
  have s: "status (response (handleFunctionCall failing_commit_env ''demo'' demo_req)) = 500"
    by (simp add: failing_commit_env_def demo_defs handler_defs call_query_def)
  from dispatch_commit_xor_rollback
    [of demo_req failing_commit_env demo_call "''demo''" "''{}''"] t s
  show ?thesis by (simp add: failing_commit_env_def demo_defs)
qed

text \<open>The same dispatch when the commit goes through.\<close>

lemma dispatch_success_example:
  "handleFunctionCall demo_env ''demo'' demo_req =
     \<lparr>response = \<lparr>status = 200,
        envelope = \<lparr>JSONRPC = ''2.0'', Result = Some ''{}'', Error = None, ID = JNum 7\<rparr>\<rparr>,
      calls = [GetConnection ''shop'', BeginTx, ExecContext (set_role_stmt ''demo''),
        QueryRowContext ''SELECT api.server_info($1::jsonb)::json'' ''{}'', Commit, Rollback],
      final_tx = Some \<lparr>tx_done = True, effects = [Committed]\<rparr>\<rparr>"
  by (simp add: demo_defs handler_defs call_query_def)

text \<open>
  Claim C4. When the privilege switch (\<^verbatim>\<open>SET LOCAL ROLE\<close> to the resolved role) fails, the
  target procedure is never invoked, the answer is 403 with the permission-denied
  error, and the transaction is rolled back, so nothing is committed.
\<close>

theorem privilege_switch_failure_stops_dispatch:
  assumes "param_function r \<noteq> ''login''"
    and "GetConnection_ok e (param_database r)"
    and "body r = Some req"
    and "dbRole \<noteq> []"
    and "json_Marshal e (req_Params req) = Some paramsJSON"
    and "BeginTx_ok e (param_database r)"
    and "\<not> ExecContext_ok e (param_database r) (set_role_stmt dbRole)"
  shows "calls (handleFunctionCall e dbRole r) =
           [GetConnection (param_database r), BeginTx, ExecContext (set_role_stmt dbRole),
            Rollback]
       \<and> (\<forall>q a. QueryRowContext q a \<notin> set (calls (handleFunctionCall e dbRole r)))
       \<and> response (handleFunctionCall e dbRole r) =
           \<lparr>status = 403, envelope = error_envelope (- 32001)
              ''Permission denied for the specified role'' (req_ID req)\<rparr>
       \<and> final_tx (handleFunctionCall e dbRole r)
           = Some \<lparr>tx_done = True, effects = [RolledBack]\<rparr>"
  using assms by (simp add: handler_defs)

theorem privilege_switch_failure_stops_dispatch_witness:
  "param_function demo_req \<noteq> ''login''
   \<and> GetConnection_ok denying_env (param_database demo_req)
   \<and> body demo_req = Some demo_call
   \<and> ''demo'' \<noteq> []
   \<and> json_Marshal denying_env (req_Params demo_call) = Some ''{}''
   \<and> BeginTx_ok denying_env (param_database demo_req)
   \<and> \<not> ExecContext_ok denying_env (param_database demo_req) (set_role_stmt ''demo'')
   \<and> calls (handleFunctionCall denying_env ''demo'' demo_req) =
        [GetConnection ''shop'', BeginTx, ExecContext (set_role_stmt ''demo''), Rollback]
   \<and> status (response (handleFunctionCall denying_env ''demo'' demo_req)) = 403
   \<and> final_tx (handleFunctionCall denying_env ''demo'' demo_req)
        = Some \<lparr>tx_done = True, effects = [RolledBack]\<rparr>"
  using privilege_switch_failure_stops_dispatch
    [of demo_req denying_env demo_call "''demo''" "''{}''"]
  by (simp add: denying_env_def demo_defs)

section \<open>What reaches the SQL text\<close>

text \<open>
  Claim C1. The procedure name of a protected call is to pass a strict identifier
  grammar before it is interpolated into the query. The handler interpolates it as it
  came: the name \<open>pg_sleep(10), to_json\<close>, which is no identifier, arrives in the query
  that the database runs under the caller's role.
\<close>

theorem procedure_name_interpolated_unvalidated:
  "\<not> spec_valid_procedure_name (param_function injection_req)
   \<and> calls (protected_chain demo_cfg demo_env injection_req) =
       [GetConnection ''shop'', BeginTx, ExecContext (set_role_stmt ''demo''),
        QueryRowContext ''SELECT pg_sleep(10), to_json($1::jsonb)::json'' ''{}'', Rollback]"
  by (simp add: injection_req_def demo_defs
      spec_valid_procedure_name_def SplitN_2_def is_identifier_def is_ident_start_def
      is_ident_char_def protected_chain_def authMiddleware_def try_jwt_def ToLower_def ToLower_char_def
      handler_defs call_query_def)

text \<open>Whatever the name is, short of the two fixed ones, it is the text between
  \<^verbatim>\<open>SELECT\<close> and the parameter list.\<close>

lemma call_query_interpolates:
  "functionName \<noteq> ''capabilities'' \<Longrightarrow>
     call_query functionName = ''SELECT '' @ functionName @ ''($1::jsonb)::json''"
  by (simp add: call_query_def)

lemma spec_grammar_examples:
  "spec_valid_procedure_name ''api.server_info''"
  "spec_valid_procedure_name ''server_info''"
  "\<not> spec_valid_procedure_name ''a.b.c''"
  by (simp_all add: spec_valid_procedure_name_def SplitN_2_def is_identifier_def
      is_ident_start_def is_ident_char_def)

lemma double_quotes_Cons:
  "double_quotes (c # s) = (if c = dquote then [dquote, dquote] else [c]) @ double_quotes s"
  by (simp add: double_quotes_def)

lemma ReplaceAll_dquote: "ReplaceAll s [dquote] [dquote, dquote] = double_quotes s"
proof (induction s)
  case Nil
  show ?case by (simp add: double_quotes_def)
next
  case (Cons c s)
  show ?case
  proof (cases "c = dquote")
    case True
    then show ?thesis using Cons by (simp add: double_quotes_Cons)
  next
    case False
    then show ?thesis using Cons by (simp add: double_quotes_Cons)
  qed
qed

lemma scan_body_doubled:
  "rest = [] \<or> hd rest \<noteq> dquote \<Longrightarrow>
     scan_body (double_quotes s @ dquote # rest) = Some (s, rest)"
proof (induction s)
  case Nil
  then show ?case by (cases rest) (auto simp: double_quotes_def)
next
  case (Cons c s)
  show ?case
  proof (cases "c = dquote")
    case True
    with Cons show ?thesis by (simp add: double_quotes_Cons)
  next
    case False
    from Cons have ih: "scan_body (double_quotes s @ dquote # rest) = Some (s, rest)"
      by simp
    obtain x xs where "double_quotes s @ dquote # rest = x # xs"
      by (cases "double_quotes s @ dquote # rest") auto
    with False ih show ?thesis by (simp add: double_quotes_Cons)
  qed
qed

text \<open>
  Claim C10. The privilege-switch statement is \<^verbatim>\<open>SET LOCAL ROLE\<close> followed by the role with
  every double quote doubled, between double quotes. Read back as a quoted identifier
  the quoted text is exactly the role, with nothing of it left over, whatever follows:
  no role can close the identifier early or add SQL to the statement. The only
  statement the handler executes is this one, for a role that is not empty.
\<close>

theorem role_is_one_quoted_identifier:
  "set_role_stmt dbRole = ''SET LOCAL ROLE '' @ [dquote] @ double_quotes dbRole @ [dquote]
   \<and> (dbRole \<noteq> [] \<longrightarrow>
        (\<forall>rest. rest = [] \<or> hd rest \<noteq> dquote \<longrightarrow>
           scan_quoted_ident (quotedRole dbRole @ rest) = Some (dbRole, rest)))
   \<and> (\<forall>e r s. ExecContext s \<in> set (calls (handleFunctionCall e dbRole r)) \<longrightarrow>
          s = set_role_stmt dbRole \<and> dbRole \<noteq> [])"
proof (intro conjI)
  show "set_role_stmt dbRole = ''SET LOCAL ROLE '' @ [dquote] @ double_quotes dbRole @ [dquote]"
    by (simp add: set_role_stmt_def quotedRole_def ReplaceAll_dquote)
  show "dbRole \<noteq> [] \<longrightarrow>
        (\<forall>rest. rest = [] \<or> hd rest \<noteq> dquote \<longrightarrow>
           scan_quoted_ident (quotedRole dbRole @ rest) = Some (dbRole, rest))"
    by (simp add: scan_quoted_ident_def quotedRole_def ReplaceAll_dquote scan_body_doubled)
  show "\<forall>e r s. ExecContext s \<in> set (calls (handleFunctionCall e dbRole r)) \<longrightarrow>
          s = set_role_stmt dbRole \<and> dbRole \<noteq> []"
    by (auto simp: handler_defs split: if_splits option.splits sum.splits commit_result.splits)
qed

theorem role_is_one_quoted_identifier_witness:
  "hostile_role \<noteq> []
   \<and> set_role_stmt hostile_role =
       ''SET LOCAL ROLE '' @ [dquote] @ ''demo'' @ [dquote, dquote] @ ''; DROP ROLE admin; --''
         @ [dquote]
   \<and> scan_quoted_ident (quotedRole hostile_role @ ''; SELECT 1'')
       = Some (hostile_role, ''; SELECT 1'')
   \<and> ExecContext (set_role_stmt hostile_role)
       \<in> set (calls (handleFunctionCall demo_env hostile_role demo_req))"
proof -
  have ne: "hostile_role \<noteq> []" by (simp add: hostile_role_def)
  have st: "set_role_stmt hostile_role =
       ''SET LOCAL ROLE '' @ [dquote] @ ''demo'' @ [dquote, dquote] @ ''; DROP ROLE admin; --''
         @ [dquote]"
    using role_is_one_quoted_identifier [of hostile_role]
    by (simp add: hostile_role_def double_quotes_def)
  have sc: "scan_quoted_ident (quotedRole hostile_role @ ''; SELECT 1'')
       = Some (hostile_role, ''; SELECT 1'')"
    using role_is_one_quoted_identifier [of hostile_role] ne by simp
  have ex: "ExecContext (set_role_stmt hostile_role)
       \<in> set (calls (handleFunctionCall demo_env hostile_role demo_req))"
    by (simp add: demo_defs handler_defs hostile_role_def)
  from ne st sc ex show ?thesis by simp
qed

section \<open>The authenticator's answers\<close>

lemma bearer_no_space: "ToLower authType = ''bearer'' \<Longrightarrow> CHR '' '' \<notin> set authType"
proof
  assume a: "ToLower authType = ''bearer''" and b: "CHR '' '' \<in> set authType"
  from b have "ToLower_char (CHR '' '') \<in> set (ToLower authType)"
    unfolding ToLower_def by (simp only: set_map) (rule imageI)
  with a show False by (simp add: ToLower_char_def)
qed

lemma SplitN_2_at_first: "sep \<notin> set a \<Longrightarrow> SplitN_2 (a @ sep # t) sep = [a, t]"
  by (induction a) (auto simp: SplitN_2_def)

lemma SplitN_2_no_sep: "sep \<notin> set s \<Longrightarrow> SplitN_2 s sep = [s]"
  by (simp add: SplitN_2_def)

lemma SplitN_2_shape: "SplitN_2 s sep = [s] \<or> (\<exists>a t. SplitN_2 s sep = [a, t])"
  by (simp add: SplitN_2_def)

lemma try_jwt_aborts:
  "try_jwt cfg e db authType tokenString = Some (Aborted resp) \<Longrightarrow>
     resp = \<lparr>status = 401, envelope = error_envelope 0 ''Invalid token for this database'' JNull\<rparr>"
  by (auto simp: try_jwt_def unauthorized_def
      split: if_splits option.splits json.splits)

lemma try_api_token_calls: "snd (try_api_token e db tokenString) \<noteq> []"
  by (simp add: try_api_token_def Let_def split: option.splits)

lemma try_api_token_no_BeginTx: "BeginTx \<notin> set (snd (try_api_token e db tokenString))"
  by (simp add: try_api_token_def Let_def split: option.splits)

lemma try_api_token_aborts:
  "try_api_token e db tokenString = (Aborted resp, cs) \<Longrightarrow> status resp = 401 \<Longrightarrow>
     envelope resp = error_envelope 0 ''Invalid or expired token'' JNull"
  by (auto simp: try_api_token_def unauthorized_def Let_def split: if_splits option.splits)

text \<open>
  Claim C2. A bearer value that is a validly signed, unexpired session credential with
  a role and a database, presented for another database than its own, is answered 401
  with the scope-mismatch error, and the middleware makes no call to the database: the
  verification of opaque credentials is not tried. The role of a credential is not
  empty (the login route refuses an empty login).
\<close>

theorem scope_mismatch_never_falls_through:
  assumes "authorization r = authType @ '' '' @ tokenString"
    and "ToLower authType = ''bearer''"
    and "jwt_Parse e (JWTSecret cfg) tokenString = Some claims"
    and "map_of claims ''db_role'' = Some (JStr dbRole)"
    and "dbRole \<noteq> []"
    and "map_of claims ''db_name'' = Some (JStr dbName)"
    and "dbName \<noteq> param_database r"
  shows "authMiddleware cfg e r = (unauthorized ''Invalid token for this database'', [])
     \<and> protected_chain cfg e r =
         \<lparr>response = \<lparr>status = 401,
              envelope = error_envelope 0 ''Invalid token for this database'' JNull\<rparr>,
           calls = [], final_tx = None\<rparr>"
proof -
  from assms(2) have ns: "CHR '' '' \<notin> set authType" by (rule bearer_no_space)
  have sp: "SplitN_2 (authorization r) (CHR '' '') = [authType, tokenString]"
    using assms(1) SplitN_2_at_first [OF ns, of tokenString] by simp
  have j: "try_jwt cfg e (param_database r) authType tokenString
      = Some (unauthorized ''Invalid token for this database'')"
    using assms by (simp add: try_jwt_def)
  from assms(1) have ne: "authorization r \<noteq> []" by simp
  have m: "authMiddleware cfg e r = (unauthorized ''Invalid token for this database'', [])"
    using ne sp j by (simp add: authMiddleware_def)
  then show ?thesis by (simp add: protected_chain_def unauthorized_def)
qed

theorem scope_mismatch_never_falls_through_witness:
  "authorization other_db_req = ''Bearer'' @ '' '' @ ''jwt-demo-shop''
   \<and> ToLower ''Bearer'' = ''bearer''
   \<and> jwt_Parse demo_env (JWTSecret demo_cfg) ''jwt-demo-shop''
       = Some [(''db_role'', JStr ''demo''), (''db_name'', JStr ''shop''),
               (''exp'', JNum 1700028800)]
   \<and> ''shop'' \<noteq> param_database other_db_req
   \<and> protected_chain demo_cfg demo_env other_db_req =
         \<lparr>response = \<lparr>status = 401,
              envelope = error_envelope 0 ''Invalid token for this database'' JNull\<rparr>,
           calls = [], final_tx = None\<rparr>"
  using scope_mismatch_never_falls_through
    [of other_db_req "''Bearer''" "''jwt-demo-shop''" demo_env demo_cfg
        "[(''db_role'', JStr ''demo''), (''db_name'', JStr ''shop''), (''exp'', JNum 1700028800)]"
        "''demo''" "''shop''"]
  by (simp add: other_db_req_def demo_defs ToLower_def ToLower_char_def)

text \<open>
  Claim C5, as stated: every authentication failure shows the client the same message.
  A request without the header and a request whose header has no second part are both
  answered 401, with two different messages.
\<close>

theorem auth_messages_differ:
  "response (protected_chain demo_cfg demo_env no_header_req) =
     \<lparr>status = 401, envelope = error_envelope 0 ''Authorization header is missing'' JNull\<rparr>
   \<and> response (protected_chain demo_cfg demo_env bare_header_req) =
     \<lparr>status = 401, envelope = error_envelope 0 ''Authorization header is malformed'' JNull\<rparr>"
  by (simp add: no_header_req_def bare_header_req_def demo_defs protected_chain_def
      authMiddleware_def unauthorized_def SplitN_2_def)

text \<open>
  Every 401 of the middleware carries one of the four messages, and the one of the
  delegated verification whenever the database was asked.
\<close>

lemma auth_401_is_one_of_four:
  assumes "authMiddleware cfg e r = (Aborted resp, cs)" and "status resp = 401"
  shows "(\<exists>m \<in> set [''Authorization header is missing'', ''Authorization header is malformed'',
                 ''Invalid token for this database'', ''Invalid or expired token''].
          envelope resp = error_envelope 0 m JNull)
      \<and> (cs \<noteq> [] \<longrightarrow> envelope resp = error_envelope 0 ''Invalid or expired token'' JNull)"
proof -
  let ?missing = "error_envelope 0 ''Authorization header is missing'' JNull"
  let ?malformed = "error_envelope 0 ''Authorization header is malformed'' JNull"
  let ?scope = "error_envelope 0 ''Invalid token for this database'' JNull"
  let ?invalid = "error_envelope 0 ''Invalid or expired token'' JNull"
  have cases: "(envelope resp = ?missing \<and> cs = []) \<or> (envelope resp = ?malformed \<and> cs = [])
     \<or> (envelope resp = ?scope \<and> cs = []) \<or> (envelope resp = ?invalid \<and> cs \<noteq> [])"
  proof (cases "authorization r = []")
    case True
    with assms show ?thesis by (auto simp: authMiddleware_def unauthorized_def)
  next
    case ne: False
    show ?thesis
    proof (cases "CHR '' '' \<in> set (authorization r)")
      case False
      with assms ne show ?thesis
        by (auto simp: authMiddleware_def unauthorized_def SplitN_2_no_sep)
    next
      case True
      then obtain a1 t1 where sp: "SplitN_2 (authorization r) (CHR '' '') = [a1, t1]"
        by (auto simp: SplitN_2_def)
      show ?thesis
      proof (cases "try_jwt cfg e (param_database r) a1 t1")
        case None
        with assms ne sp have t: "try_api_token e (param_database r) t1 = (Aborted resp, cs)"
          by (simp add: authMiddleware_def)
        from try_api_token_aborts [OF t] assms have "envelope resp = ?invalid" by simp
        moreover from try_api_token_calls [of e "param_database r" t1] t have "cs \<noteq> []"
          by simp
        ultimately show ?thesis by simp
      next
        case (Some res)
        with assms ne sp have "res = Aborted resp" and c: "cs = []"
          by (auto simp: authMiddleware_def)
        with Some try_jwt_aborts [of cfg e "param_database r" a1 t1 resp]
        have "envelope resp = ?scope" by simp
        with c show ?thesis by simp
      qed
    qed
  qed
  then show ?thesis by auto
qed

lemma authMiddleware_scope_mismatch:
  assumes "authorization r = authType @ '' '' @ tokenString"
    and "ToLower authType = ''bearer''"
    and "jwt_Parse e (JWTSecret cfg) tokenString = Some claims"
    and "map_of claims ''db_role'' = Some (JStr dbRole)"
    and "dbRole \<noteq> []"
    and "map_of claims ''db_name'' = Some (JStr dbName)"
    and "dbName \<noteq> param_database r"
  shows "authMiddleware cfg e r = (unauthorized ''Invalid token for this database'', [])"
proof -
  from assms(2) have ns: "CHR '' '' \<notin> set authType" by (rule bearer_no_space)
  have sp: "SplitN_2 (authorization r) (CHR '' '') = [authType, tokenString]"
    using assms(1) SplitN_2_at_first [OF ns, of tokenString] by simp
  have j: "try_jwt cfg e (param_database r) authType tokenString
      = Some (unauthorized ''Invalid token for this database'')"
    using assms by (simp add: try_jwt_def)
  from assms(1) have ne: "authorization r \<noteq> []" by simp
  show ?thesis using ne sp j by (simp add: authMiddleware_def)
qed

text \<open>
  A bearer value is no usable session credential when the scheme is not \<open>bearer\<close>, or
  \<^verbatim>\<open>jwt.Parse\<close> refuses the token (bad signature, expired), or its claims lack a role
  that is a string and not empty or a database that is a string.
\<close>

lemma try_jwt_unusable:
  assumes "ToLower authType = ''bearer'' \<longrightarrow>
      (\<forall>claims dbRole dbName. jwt_Parse e (JWTSecret cfg) tokenString = Some claims
         \<and> map_of claims ''db_role'' = Some (JStr dbRole)
         \<and> map_of claims ''db_name'' = Some (JStr dbName) \<longrightarrow> dbRole = [])"
  shows "try_jwt cfg e db authType tokenString = None"
  using assms
  by (auto simp: try_jwt_def split: option.splits json.splits)

lemma authMiddleware_rejected_token:
  assumes "authorization r = authType @ '' '' @ tokenString"
    and "CHR '' '' \<notin> set authType"
    and "ToLower authType = ''bearer'' \<longrightarrow>
      (\<forall>claims dbRole dbName. jwt_Parse e (JWTSecret cfg) tokenString = Some claims
         \<and> map_of claims ''db_role'' = Some (JStr dbRole)
         \<and> map_of claims ''db_name'' = Some (JStr dbName) \<longrightarrow> dbRole = [])"
    and "GetConnection_ok e (param_database r)"
    and "\<forall>role. QueryRow_role e (param_database r)
            ''SELECT pgarachne.verify_api_token($1)'' tokenString \<noteq> Some (Some role)"
  shows "authMiddleware cfg e r =
     (unauthorized ''Invalid or expired token'',
      [GetConnection (param_database r),
       QueryRowContext ''SELECT pgarachne.verify_api_token($1)'' tokenString])"
proof -
  have sp: "SplitN_2 (authorization r) (CHR '' '') = [authType, tokenString]"
    using assms(1) SplitN_2_at_first [OF assms(2), of tokenString] by simp
  from assms(1) have ne: "authorization r \<noteq> []" by simp
  have j: "try_jwt cfg e (param_database r) authType tokenString = None"
    using assms(3) by (rule try_jwt_unusable)
  have a: "try_api_token e (param_database r) tokenString =
     (unauthorized ''Invalid or expired token'',
      [GetConnection (param_database r),
       QueryRowContext ''SELECT pgarachne.verify_api_token($1)'' tokenString])"
    using assms(4,5) by (auto simp: try_api_token_def Let_def split: option.splits)
  show ?thesis using ne sp j a by (simp add: authMiddleware_def)
qed

lemma handleLogin_ping_refused:
  assumes "login_body lr = Some loginReq"
    and "Login loginReq \<noteq> []" and "Password loginReq \<noteq> []"
    and "sql_Open_ok e (connStr cfg loginReq (login_database lr))"
    and "\<not> PingContext_ok e (connStr cfg loginReq (login_database lr))"
  shows "handleLogin cfg e lr =
     \<lparr>login_status = 401, login_H = (''error'', ''Invalid login or password'')\<rparr>"
  using assms by (simp add: handleLogin_def ShouldBindJSON_Login_def)

text \<open>
  Claim C5, amended. Every authentication failure is answered 401 with a fixed message
  that the failing check selects and nothing else: no header, \<open>Authorization header is
  missing\<close>; a header without a second part, \<open>Authorization header is malformed\<close>; a
  valid session credential of another database, \<open>Invalid token for this database\<close>; a
  bearer value that is no usable session credential and that the delegated
  verification does not accept, \<open>Invalid or expired token\<close>; each with code 0 and a null
  id. A direct login whose verification is refused is answered 401 with the one
  message \<open>Invalid login or password\<close>, whatever the login and the password were.
\<close>

theorem auth_failure_messages_fixed:
  "(authorization r0 = [] \<longrightarrow>
      authMiddleware cfg e r0 = (unauthorized ''Authorization header is missing'', []))
   \<and> (authorization r1 \<noteq> [] \<and> CHR '' '' \<notin> set (authorization r1) \<longrightarrow>
      authMiddleware cfg e r1 = (unauthorized ''Authorization header is malformed'', []))
   \<and> (authorization r2 = authType2 @ '' '' @ token2
       \<and> ToLower authType2 = ''bearer''
       \<and> jwt_Parse e (JWTSecret cfg) token2 = Some claims
       \<and> map_of claims ''db_role'' = Some (JStr dbRole) \<and> dbRole \<noteq> []
       \<and> map_of claims ''db_name'' = Some (JStr dbName)
       \<and> dbName \<noteq> param_database r2 \<longrightarrow>
      authMiddleware cfg e r2 = (unauthorized ''Invalid token for this database'', []))
   \<and> (authorization r3 = authType3 @ '' '' @ token3
       \<and> CHR '' '' \<notin> set authType3
       \<and> (ToLower authType3 = ''bearer'' \<longrightarrow>
            (\<forall>cl ro db. jwt_Parse e (JWTSecret cfg) token3 = Some cl
               \<and> map_of cl ''db_role'' = Some (JStr ro)
               \<and> map_of cl ''db_name'' = Some (JStr db) \<longrightarrow> ro = []))
       \<and> GetConnection_ok e (param_database r3)
       \<and> (\<forall>role. QueryRow_role e (param_database r3)
              ''SELECT pgarachne.verify_api_token($1)'' token3 \<noteq> Some (Some role)) \<longrightarrow>
      authMiddleware cfg e r3 =
        (unauthorized ''Invalid or expired token'',
         [GetConnection (param_database r3),
          QueryRowContext ''SELECT pgarachne.verify_api_token($1)'' token3]))
   \<and> (login_body lr = Some loginReq
       \<and> Login loginReq \<noteq> [] \<and> Password loginReq \<noteq> []
       \<and> sql_Open_ok e (connStr cfg loginReq (login_database lr))
       \<and> \<not> PingContext_ok e (connStr cfg loginReq (login_database lr)) \<longrightarrow>
      handleLogin cfg e lr =
        \<lparr>login_status = 401, login_H = (''error'', ''Invalid login or password'')\<rparr>)
   \<and> (\<forall>msg. unauthorized msg =
         Aborted \<lparr>status = 401, envelope = \<lparr>JSONRPC = [], Result = None,
           Error = Some \<lparr>Code = 0, Message = msg\<rparr>, ID = JNull\<rparr>\<rparr>)"
proof (intro conjI impI allI)
  show "authMiddleware cfg e r0 = (unauthorized ''Authorization header is missing'', [])"
    if "authorization r0 = []"
    using that by (simp add: authMiddleware_def)
  show "authMiddleware cfg e r1 = (unauthorized ''Authorization header is malformed'', [])"
    if "authorization r1 \<noteq> [] \<and> CHR '' '' \<notin> set (authorization r1)"
    using that by (simp add: authMiddleware_def SplitN_2_no_sep)
  show "authMiddleware cfg e r2 = (unauthorized ''Invalid token for this database'', [])"
    if "authorization r2 = authType2 @ '' '' @ token2
       \<and> ToLower authType2 = ''bearer''
       \<and> jwt_Parse e (JWTSecret cfg) token2 = Some claims
       \<and> map_of claims ''db_role'' = Some (JStr dbRole) \<and> dbRole \<noteq> []
       \<and> map_of claims ''db_name'' = Some (JStr dbName)
       \<and> dbName \<noteq> param_database r2"
    using that authMiddleware_scope_mismatch [of r2 authType2 token2 e cfg claims dbRole dbName]
    by blast
  show "authMiddleware cfg e r3 =
        (unauthorized ''Invalid or expired token'',
         [GetConnection (param_database r3),
          QueryRowContext ''SELECT pgarachne.verify_api_token($1)'' token3])"
    if "authorization r3 = authType3 @ '' '' @ token3
       \<and> CHR '' '' \<notin> set authType3
       \<and> (ToLower authType3 = ''bearer'' \<longrightarrow>
            (\<forall>cl ro db. jwt_Parse e (JWTSecret cfg) token3 = Some cl
               \<and> map_of cl ''db_role'' = Some (JStr ro)
               \<and> map_of cl ''db_name'' = Some (JStr db) \<longrightarrow> ro = []))
       \<and> GetConnection_ok e (param_database r3)
       \<and> (\<forall>role. QueryRow_role e (param_database r3)
              ''SELECT pgarachne.verify_api_token($1)'' token3 \<noteq> Some (Some role))"
    using that authMiddleware_rejected_token [of r3 authType3 token3 e cfg]
    by blast
  show "handleLogin cfg e lr =
        \<lparr>login_status = 401, login_H = (''error'', ''Invalid login or password'')\<rparr>"
    if "login_body lr = Some loginReq
       \<and> Login loginReq \<noteq> [] \<and> Password loginReq \<noteq> []
       \<and> sql_Open_ok e (connStr cfg loginReq (login_database lr))
       \<and> \<not> PingContext_ok e (connStr cfg loginReq (login_database lr))"
    using that handleLogin_ping_refused [of lr loginReq e cfg] by blast
  show "unauthorized msg =
         Aborted \<lparr>status = 401, envelope = \<lparr>JSONRPC = [], Result = None,
           Error = Some \<lparr>Code = 0, Message = msg\<rparr>, ID = JNull\<rparr>\<rparr>" for msg
    by (simp add: unauthorized_def error_envelope_def)
qed

theorem auth_failure_messages_fixed_witness:
  "authorization no_header_req = []
   \<and> authMiddleware demo_cfg demo_env no_header_req
       = (unauthorized ''Authorization header is missing'', [])
   \<and> authorization bare_header_req \<noteq> [] \<and> CHR '' '' \<notin> set (authorization bare_header_req)
   \<and> authMiddleware demo_cfg demo_env bare_header_req
       = (unauthorized ''Authorization header is malformed'', [])
   \<and> authorization other_db_req = ''Bearer'' @ '' '' @ ''jwt-demo-shop''
   \<and> ''shop'' \<noteq> param_database other_db_req
   \<and> authMiddleware demo_cfg demo_env other_db_req
       = (unauthorized ''Invalid token for this database'', [])
   \<and> authorization forged_req = ''Bearer'' @ '' '' @ ''forged''
   \<and> jwt_Parse demo_env (JWTSecret demo_cfg) ''forged'' = None
   \<and> GetConnection_ok demo_env (param_database forged_req)
   \<and> QueryRow_role demo_env (param_database forged_req)
        ''SELECT pgarachne.verify_api_token($1)'' ''forged'' = Some None
   \<and> authMiddleware demo_cfg demo_env forged_req
       = (unauthorized ''Invalid or expired token'',
          [GetConnection ''shop'',
           QueryRowContext ''SELECT pgarachne.verify_api_token($1)'' ''forged''])
   \<and> login_body wrong_password_login = Some \<lparr>Login = ''demo'', Password = ''guess''\<rparr>
   \<and> \<not> PingContext_ok demo_env
        (connStr demo_cfg \<lparr>Login = ''demo'', Password = ''guess''\<rparr>
           (login_database wrong_password_login))
   \<and> handleLogin demo_cfg demo_env wrong_password_login
       = \<lparr>login_status = 401, login_H = (''error'', ''Invalid login or password'')\<rparr>"
proof -
  have p: "\<not> PingContext_ok demo_env
        (connStr demo_cfg \<lparr>Login = ''demo'', Password = ''guess''\<rparr>
           (login_database wrong_password_login))"
    by (simp add: wrong_password_login_def demo_defs connStr_def Itoa_def digits.simps)
  from auth_failure_messages_fixed
    [of no_header_req demo_cfg demo_env bare_header_req
        other_db_req "''Bearer''" "''jwt-demo-shop''"
        "[(''db_role'', JStr ''demo''), (''db_name'', JStr ''shop''), (''exp'', JNum 1700028800)]"
        "''demo''" "''shop''"
        forged_req "''Bearer''" "''forged''"
        wrong_password_login "\<lparr>Login = ''demo'', Password = ''guess''\<rparr>"] p
  show ?thesis
    by (simp add: no_header_req_def bare_header_req_def other_db_req_def forged_req_def
        wrong_password_login_def demo_defs ToLower_def ToLower_char_def)
qed

section \<open>Direct login\<close>

lemma int64_id: "- (2 ^ 63) \<le> x \<Longrightarrow> x < 2 ^ 63 \<Longrightarrow> int64 x = x"
  unfolding int64_def by (simp add: sint_sbintrunc' signed_take_bit_int_eq_self)

lemma expiration_in_range:
  assumes "- 2562047 \<le> JWTExpiryHours cfg" and "JWTExpiryHours cfg \<le> 2562047"
  shows "expiration_Unix cfg e = time_Now e div 1000000000 + JWTExpiryHours cfg * 3600"
proof -
  let ?h = "JWTExpiryHours cfg"
  have h: "int64 ?h = ?h" using assms by (intro int64_id) simp_all
  have d: "int64 (?h * 3600000000000) = ?h * 3600000000000"
    using assms by (intro int64_id) simp_all
  have "expiration_Unix cfg e = (time_Now e + ?h * 3600 * 1000000000) div 1000000000"
    by (simp add: expiration_Unix_def h d time_Hour_def)
  also have "\<dots> = time_Now e div 1000000000 + ?h * 3600"
    by simp
  finally show ?thesis .
qed

text \<open>Only a request with a login name that is not empty is given a credential.\<close>

lemma minted_role_not_empty:
  "login_status (handleLogin cfg e r) = 200 \<Longrightarrow>
     \<exists>loginReq. login_body r = Some loginReq \<and> Login loginReq \<noteq> []
       \<and> PingContext_ok e (connStr cfg loginReq (login_database r))"
  by (auto simp: handleLogin_def ShouldBindJSON_Login_def Let_def
      split: option.splits if_splits)

text \<open>
  Claim C6. A direct login that verifies against database \<open>D\<close> (the request binds, the
  connection opens and the ping succeeds) is answered 200 with the token that
  \<^verbatim>\<open>SignedString\<close> makes, under the configured signing secret, of the claims: role the
  login name, database \<open>D\<close>, expiry the time of minting plus the configured hours as a
  \<^verbatim>\<open>time.Duration\<close>. For every number of hours that a \<^verbatim>\<open>Duration\<close> can hold this is the
  second of minting plus 3600 times the hours.
\<close>

theorem login_mints_scoped_credential:
  assumes "login_body r = Some loginReq"
    and "Login loginReq \<noteq> []" and "Password loginReq \<noteq> []"
    and "sql_Open_ok e (connStr cfg loginReq (login_database r))"
    and "PingContext_ok e (connStr cfg loginReq (login_database r))"
    and "claims = [(''db_role'', JStr (Login loginReq)), (''db_name'', JStr (login_database r)),
                   (''exp'', JNum ((time_Now e
                       + int64 (int64 (JWTExpiryHours cfg) * 3600000000000)) div 1000000000))]"
    and "jwt_SignedString e (JWTSecret cfg) claims = Some tokenString"
  shows "handleLogin cfg e r = \<lparr>login_status = 200, login_H = (''token'', tokenString)\<rparr>
     \<and> (- 2562047 \<le> JWTExpiryHours cfg \<and> JWTExpiryHours cfg \<le> 2562047 \<longrightarrow>
          map_of claims ''exp''
            = Some (JNum (time_Now e div 1000000000 + JWTExpiryHours cfg * 3600)))"
proof -
  have c: "session_claims cfg e (Login loginReq) (login_database r) = claims"
    using assms(6) by (simp add: session_claims_def expiration_Unix_def time_Hour_def)
  have 1: "handleLogin cfg e r = \<lparr>login_status = 200, login_H = (''token'', tokenString)\<rparr>"
    using assms(1-5,7) c by (simp add: handleLogin_def ShouldBindJSON_Login_def)
  have 2: "- 2562047 \<le> JWTExpiryHours cfg \<and> JWTExpiryHours cfg \<le> 2562047 \<longrightarrow>
          map_of claims ''exp''
            = Some (JNum (time_Now e div 1000000000 + JWTExpiryHours cfg * 3600))"
    using expiration_in_range [of cfg e] c [symmetric] by (simp add: session_claims_def)
  from 1 2 show ?thesis by simp
qed

theorem login_mints_scoped_credential_witness:
  "login_body demo_login = Some \<lparr>Login = ''demo'', Password = ''pw''\<rparr>
   \<and> PingContext_ok demo_env
        (connStr demo_cfg \<lparr>Login = ''demo'', Password = ''pw''\<rparr> (login_database demo_login))
   \<and> - 2562047 \<le> JWTExpiryHours demo_cfg \<and> JWTExpiryHours demo_cfg \<le> 2562047
   \<and> jwt_SignedString demo_env (JWTSecret demo_cfg)
        [(''db_role'', JStr ''demo''), (''db_name'', JStr ''shop''), (''exp'', JNum 1700028800)]
       = Some ''jwt-demo-shop''
   \<and> handleLogin demo_cfg demo_env demo_login
       = \<lparr>login_status = 200, login_H = (''token'', ''jwt-demo-shop'')\<rparr>
   \<and> map_of [(''db_role'', JStr ''demo''), (''db_name'', JStr ''shop''),
              (''exp'', JNum 1700028800)] ''exp''
       = Some (JNum (time_Now demo_env div 1000000000 + JWTExpiryHours demo_cfg * 3600))"
proof -
  have i: "int64 (int64 8 * 3600000000000) = 28800000000000"
    by (simp add: int64_id)
  have p: "PingContext_ok demo_env
        (connStr demo_cfg \<lparr>Login = ''demo'', Password = ''pw''\<rparr> (login_database demo_login))"
    by (simp add: demo_login_def demo_defs connStr_def Itoa_def digits.simps)
  from login_mints_scoped_credential
    [of demo_login "\<lparr>Login = ''demo'', Password = ''pw''\<rparr>" demo_env demo_cfg
        "[(''db_role'', JStr ''demo''), (''db_name'', JStr ''shop''), (''exp'', JNum 1700028800)]"
        "''jwt-demo-shop''"] p i
  show ?thesis by (simp add: demo_login_def demo_defs)
qed

section \<open>The envelope of the protected route\<close>

text \<open>
  Claim C7, as stated: every response of the protected route echoes the caller's
  correlation id. A call for a database whose pool cannot be had, sent with id 7, is
  answered 503 with a null id.
\<close>

theorem id_lost_before_decoding:
  "body other_db_req = Some demo_call \<and> req_ID demo_call = JNum 7
   \<and> response (handleFunctionCall demo_env ''demo'' other_db_req) =
       \<lparr>status = 503, envelope = error_envelope 0 ''Database connection failed'' JNull\<rparr>
   \<and> ID (envelope (response (handleFunctionCall demo_env ''demo'' other_db_req))) = JNull"
  by (simp add: other_db_req_def demo_defs handler_defs error_envelope_def)

text \<open>
  Claim C7, amended. Every response that the handler writes after it has decoded the
  request body, the success envelope and every later error envelope, carries the id of
  the request (null when the caller sent none). The responses written before the body
  is decoded, for the login name, for a pool that cannot be had and for a body that
  does not decode, carry a null id.
\<close>

theorem correlation_id_echoed_after_decoding:
  "ID (envelope (response (handleFunctionCall e dbRole r))) =
     (if param_function r = ''login'' \<or> \<not> GetConnection_ok e (param_database r) then JNull
      else case body r of None \<Rightarrow> JNull | Some req \<Rightarrow> req_ID req)"
  by (simp add: handler_defs error_envelope_def
      split: option.splits sum.splits commit_result.splits)

theorem correlation_id_echoed_after_decoding_witness:
  "param_function injection_req \<noteq> ''login''
   \<and> GetConnection_ok demo_env (param_database injection_req)
   \<and> body injection_req = Some demo_call
   \<and> status (response (handleFunctionCall demo_env ''demo'' injection_req)) = 500
   \<and> ID (envelope (response (handleFunctionCall demo_env ''demo'' injection_req))) = JNum 7"
proof -
  have s: "status (response (handleFunctionCall demo_env ''demo'' injection_req)) = 500"
    by (simp add: injection_req_def demo_defs handler_defs call_query_def)
  from correlation_id_echoed_after_decoding [of demo_env "''demo''" injection_req] s
  show ?thesis by (simp add: injection_req_def demo_defs)
qed

section \<open>The procedure name login\<close>

lemma route_other_names:
  "param_function r \<noteq> ''login'' \<Longrightarrow>
     route_POST_api cfg e r as_login = Call_served (protected_chain cfg e r)"
  by (simp add: route_POST_api_def)

lemma handleLogin_statuses: "login_status (handleLogin cfg e lr) \<in> {200, 400, 401, 500}"
  by (simp add: handleLogin_def Let_def split: option.splits)

text \<open>
  Claim C8, as stated: a request of the protected route for the procedure name \<open>login\<close>
  is answered 403 whether or not its credential is valid. \<^verbatim>\<open>POST /api/shop/login\<close> with
  the valid bearer token and a JSON-RPC body is served by \<^verbatim>\<open>handleLogin\<close>, which finds no
  login and no password in the body and answers 400.
\<close>

theorem login_name_served_by_login_route:
  "param_function signed_login_req = ''login''
   \<and> route_POST_api demo_cfg demo_env signed_login_req demo_call_as_login =
       Login_served \<lparr>login_status = 400, login_H = (''error'', ''Invalid request body'')\<rparr>"
  by (simp add: signed_login_req_def demo_defs demo_call_as_login_def route_POST_api_def
      handleLogin_def ShouldBindJSON_Login_def)

text \<open>
  Claim C8, amended. \<^verbatim>\<open>handleFunctionCall\<close>, given the procedure name \<open>login\<close>, answers 403
  before it asks for a pool or opens a transaction, whatever role it was given. The
  router never gives it that name: a request for \<^verbatim>\<open>/api/{database}/login\<close> is served by
  \<^verbatim>\<open>handleLogin\<close>, with a status among 200, 400, 401 and 500 and never 403, and every
  request that reaches the group has another name. So the login procedure is reachable
  by the public login route only.
\<close>

theorem login_name_forbidden_in_dispatcher:
  assumes "param_function r = ''login''"
  shows "handleFunctionCall e dbRole r =
           \<lparr>response = \<lparr>status = 403,
               envelope = error_envelope 0 ''Login must be called via the public endpoint'' JNull\<rparr>,
             calls = [], final_tx = None\<rparr>
     \<and> route_POST_api cfg e r as_login =
          Login_served
            (handleLogin cfg e \<lparr>login_database = param_database r, login_body = as_login\<rparr>)
     \<and> login_status
          (handleLogin cfg e \<lparr>login_database = param_database r, login_body = as_login\<rparr>)
          \<in> {200, 400, 401, 500}
     \<and> (\<forall>r' al out. route_POST_api cfg e r' al = Call_served out \<longrightarrow>
           param_function r' \<noteq> ''login'' \<and> out = protected_chain cfg e r')"
proof (intro conjI allI impI)
  show "handleFunctionCall e dbRole r =
           \<lparr>response = \<lparr>status = 403,
               envelope = error_envelope 0 ''Login must be called via the public endpoint'' JNull\<rparr>,
             calls = [], final_tx = None\<rparr>"
    using assms by (simp add: handler_defs)
  show "route_POST_api cfg e r as_login =
          Login_served
            (handleLogin cfg e \<lparr>login_database = param_database r, login_body = as_login\<rparr>)"
    using assms by (simp add: route_POST_api_def)
  show "login_status
          (handleLogin cfg e \<lparr>login_database = param_database r, login_body = as_login\<rparr>)
          \<in> {200, 400, 401, 500}"
    by (rule handleLogin_statuses)
  show "param_function r' \<noteq> ''login''"
    if "route_POST_api cfg e r' al = Call_served out" for r' al out
    using that by (auto simp: route_POST_api_def split: if_splits)
  show "out = protected_chain cfg e r'"
    if "route_POST_api cfg e r' al = Call_served out" for r' al out
    using that by (auto simp: route_POST_api_def split: if_splits)
qed

theorem login_name_forbidden_in_dispatcher_witness:
  "param_function signed_login_req = ''login''
   \<and> handleFunctionCall demo_env ''demo'' signed_login_req =
       \<lparr>response = \<lparr>status = 403,
           envelope = error_envelope 0 ''Login must be called via the public endpoint'' JNull\<rparr>,
         calls = [], final_tx = None\<rparr>
   \<and> route_POST_api demo_cfg demo_env signed_login_req demo_call_as_login =
       Login_served \<lparr>login_status = 400, login_H = (''error'', ''Invalid request body'')\<rparr>
   \<and> route_POST_api demo_cfg demo_env demo_req demo_call_as_login =
       Call_served (protected_chain demo_cfg demo_env demo_req)
   \<and> param_function demo_req \<noteq> ''login''"
proof -
  have f: "param_function signed_login_req = ''login''"
    by (simp add: signed_login_req_def demo_defs)
  have l: "handleLogin demo_cfg demo_env
       \<lparr>login_database = param_database signed_login_req, login_body = demo_call_as_login\<rparr>
     = \<lparr>login_status = 400, login_H = (''error'', ''Invalid request body'')\<rparr>"
    by (simp add: demo_call_as_login_def handleLogin_def ShouldBindJSON_Login_def)
  have d: "route_POST_api demo_cfg demo_env demo_req demo_call_as_login =
       Call_served (protected_chain demo_cfg demo_env demo_req)"
    by (simp add: route_POST_api_def demo_req_def)
  note th = login_name_forbidden_in_dispatcher
    [OF f, of demo_env "''demo''" demo_cfg demo_call_as_login]
  from th have h: "handleFunctionCall demo_env ''demo'' signed_login_req =
       \<lparr>response = \<lparr>status = 403,
           envelope = error_envelope 0 ''Login must be called via the public endpoint'' JNull\<rparr>,
         calls = [], final_tx = None\<rparr>"
    by (rule conjunct1)
  from th have rt: "route_POST_api demo_cfg demo_env signed_login_req demo_call_as_login =
       Login_served (handleLogin demo_cfg demo_env
         \<lparr>login_database = param_database signed_login_req, login_body = demo_call_as_login\<rparr>)"
    by (rule conjunct2 [THEN conjunct1])
  from th have gen: "\<forall>r' al out.
       route_POST_api demo_cfg demo_env r' al = Call_served out \<longrightarrow>
         param_function r' \<noteq> ''login'' \<and> out = protected_chain demo_cfg demo_env r'"
    by (rule conjunct2 [THEN conjunct2, THEN conjunct2])
  from gen d have n: "param_function demo_req \<noteq> ''login''" by blast
  from rt l have rt': "route_POST_api demo_cfg demo_env signed_login_req demo_call_as_login =
       Login_served \<lparr>login_status = 400, login_H = (''error'', ''Invalid request body'')\<rparr>"
    by simp
  from f h rt' d n show ?thesis by blast
qed

end
